theory Spec2Isabelle
  imports Complex_Main "HOL-Library.AList"
begin

section \<open>Errors\<close>

text \<open>
  Every \<^verbatim>\<open>raise\<close> of Net.py, and every exception of a Python built-in that the modelled
  code can run into, is a value: a fallible function returns \<open>error + 'a\<close>, with \<open>Inl\<close> the
  exception.
\<close>

datatype error = IndexError | KeyError | ValueError | AttributeError | ReferenceError | TypeError

definition bind :: "error + 'a \<Rightarrow> ('a \<Rightarrow> error + 'b) \<Rightarrow> error + 'b" where
  "bind m f = (case m of Inl e \<Rightarrow> Inl e | Inr x \<Rightarrow> f x)"

section \<open>Allowance\<close>

text \<open>
  Modelled from the spec: the class \<^verbatim>\<open>Allowance\<close> of module \<^verbatim>\<open>_Utils\<close>, which Net.py uses for
  every permission test, is not among the sources. The spec describes it as "conceptually a
  set of named vehicle classes" with a membership test by class name, a union ("the result
  permits a class iff either operand did"), a superset test ("true iff every class the other
  permits is also permitted here"), and an equality against a single class name that "means
  this set is exactly that one class"; the literal class "none" "denies every class".
  An Allowance is therefore the set of the class names it permits.
\<close>

type_synonym allowance = "string set"

definition allowance_none :: allowance where
  \<comment> \<open>\<^verbatim>\<open>Allowance("none")\<close>\<close>
  "allowance_none = {}"

definition allowance_member :: "allowance \<Rightarrow> string \<Rightarrow> bool" where
  \<comment> \<open>\<^verbatim>\<open>a[name]\<close> and \<^verbatim>\<open>a(name)\<close>\<close>
  "allowance_member a name = (name \<in> a)"

definition allowance_union :: "allowance \<Rightarrow> allowance \<Rightarrow> allowance" where
  \<comment> \<open>\<^verbatim>\<open>a + b\<close>, \<^verbatim>\<open>a += b\<close>\<close>
  "allowance_union a b = a \<union> b"

definition is_superset_of :: "allowance \<Rightarrow> allowance \<Rightarrow> bool" where
  "is_superset_of a other = (other \<subseteq> a)"

definition single_class :: "string \<Rightarrow> allowance" where
  "single_class name = (if name = ''none'' then {} else {name})"

definition allowance_eq :: "allowance \<Rightarrow> string \<Rightarrow> bool" where
  \<comment> \<open>\<^verbatim>\<open>a == "name"\<close>\<close>
  "allowance_eq a name = (a = single_class name)"

section \<open>Data model\<close>

text \<open>
  Floats are carried as reals: the modelled code compares them and passes them on, and the
  arithmetic on them (stripe widths) is idealised. Shapely geometries are carried as their
  coordinate lists; every Shapely operation is a parameter (record \<open>shapely\<close> below).

  The object graph is an explicit store. \<^verbatim>\<open>Net.edges\<close> and \<^verbatim>\<open>Net.junctions\<close> are dicts in
  insertion order (association lists), \<^verbatim>\<open>Net.connections\<close> is a list. A Lane is owned by
  exactly one Edge (\<^verbatim>\<open>append_lane\<close>), so it is stored in its Edge's \<open>e_lanes\<close>, and a reference
  to a Lane is the key of that Edge together with the position in \<open>e_lanes\<close>; the Lane's
  \<^verbatim>\<open>parentEdge\<close> is the Edge that holds it (\<open>None\<close> for a Lane that was never appended). A
  reference to an Edge or a Junction is its key in the dict, a reference to a Connection its
  position in \<^verbatim>\<open>Net.connections\<close>. Requests are never changed after construction, so a Lane's
  \<^verbatim>\<open>requests\<close> holds them by value.
\<close>

type_synonym coords = "real list list"
type_synonym lane_ref = "string \<times> nat"
type_synonym cxn_ref = nat

record request =
  r_index :: int
  r_response :: string
  r_foes :: string
  r_cont :: string
  r_parentJunction :: "string option"

record lane =
  l_id :: string
  l_index :: int
  l_speed :: real
  l_allows :: allowance
  l_width :: real
  l_endOffset :: "string option"
  l_acceleration :: string
  l_alignment :: coords
  l_shape :: coords
  l_stop_offsets :: "(real \<times> allowance) list"
  l_incoming_connections :: "cxn_ref list"
  l_outgoing_connections :: "cxn_ref list"
  l_requests :: "request list"

record edge =
  e_id :: string
  e_function :: string
  e_from_junction_id :: "string option"
  e_to_junction_id :: "string option"
  e_from_junction :: "string option"
  e_to_junction :: "string option"
  e_lanes :: "lane list"
  e_stop_offsets :: "(real \<times> allowance) list"

record junction =
  j_id :: string
  j_type :: string
  j_incLane_ids :: "string list"
  j_intLane_ids :: "string list"
  j_incLanes :: "lane_ref list"
  j_intLanes :: "lane_ref list"
  j_requests :: "request list"
  j_shape :: "coords option"

record connection =
  c_from_edge_id :: string
  c_to_edge_id :: string
  c_from_edge :: "string option"
  c_to_edge :: "string option"
  c_from_lane_index :: int
  c_to_lane_index :: int
  c_from_lane :: "lane_ref option"
  c_to_lane :: "lane_ref option"
  c_via_id :: "string option"
  c_via_lane :: "lane_ref option"
  c_dir :: string
  c_state :: string
  c_shape :: "coords option"

record net =
  edges :: "(string \<times> edge) list"
  junctions :: "(string \<times> junction) list"
  connections :: "connection list"

text \<open>
  Reading a reference. The linking pass only ever stores a reference to an object that is in
  the store; a reference that is not (which no run of the code produces) reads as \<open>None\<close>.
\<close>

definition lane_at :: "net \<Rightarrow> lane_ref \<Rightarrow> lane option" where
  "lane_at n r =
     (case map_of (edges n) (fst r) of
        None \<Rightarrow> None
      | Some e \<Rightarrow> if snd r < length (e_lanes e) then Some (e_lanes e ! snd r) else None)"

definition deref_lane :: "net \<Rightarrow> lane_ref option \<Rightarrow> lane option" where
  "deref_lane n ref = (case ref of None \<Rightarrow> None | Some r \<Rightarrow> lane_at n r)"

definition deref_junction :: "net \<Rightarrow> string option \<Rightarrow> junction option" where
  "deref_junction n ref = (case ref of None \<Rightarrow> None | Some k \<Rightarrow> map_of (junctions n) k)"

section \<open>Lane classification\<close>

definition lane_type :: "edge option \<Rightarrow> lane \<Rightarrow> string" where
  "lane_type parentEdge self =
     (if allowance_eq (l_allows self) ''pedestrian'' then
        (case parentEdge of
           None \<Rightarrow> ''pedestrian''
         | Some e \<Rightarrow> if e_function e = ''crossing'' then ''crosswalk'' else ''pedestrian'')
      else if allowance_eq (l_allows self) ''bicycle'' then ''bicycle''
      else if allowance_eq (l_allows self) ''ship'' then ''ship''
      else if allowance_eq (l_allows self) ''authority'' then ''authority''
      else if allowance_eq (l_allows self) ''none'' then ''none''
      else if \<not> allowance_member (l_allows self) ''passenger'' then ''no_passenger''
      else ''other'')"

definition get_stop_line_locations_offsets :: "edge option \<Rightarrow> lane \<Rightarrow> (real \<times> allowance) list" where
  \<comment> \<open>the local \<^verbatim>\<open>stop_offsets\<close> of \<^verbatim>\<open>get_stop_line_locations\<close>\<close>
  "get_stop_line_locations_offsets parentEdge self =
     (if length (l_stop_offsets self) > 0 then l_stop_offsets self
      else (case parentEdge of Some e \<Rightarrow> e_stop_offsets e | None \<Rightarrow> []))"

fun accrue :: "(real \<times> allowance) list \<Rightarrow> allowance \<times> real list \<Rightarrow> allowance \<times> real list" where
  \<comment> \<open>the \<^verbatim>\<open>for stop_offset, vClasses in stop_offsets\<close> loop; the state is
      \<^verbatim>\<open>(accrued_vClasses, stop_line_locations)\<close>\<close>
  "accrue [] st = st"
| "accrue ((stop_offset, vClasses) # rest) (accrued_vClasses, stop_line_locations) =
     accrue rest (allowance_union accrued_vClasses vClasses, stop_line_locations @ [stop_offset])"

definition get_stop_line_locations :: "edge option \<Rightarrow> lane \<Rightarrow> real list" where
  "get_stop_line_locations parentEdge self =
     (case accrue (get_stop_line_locations_offsets parentEdge self) (allowance_none, []) of
        (accrued_vClasses, stop_line_locations) \<Rightarrow>
          if \<not> is_superset_of accrued_vClasses (l_allows self) \<and> 0 \<notin> set stop_line_locations
          then stop_line_locations @ [0]
          else stop_line_locations)"

definition requires_stop_line :: "net \<Rightarrow> edge option \<Rightarrow> lane \<Rightarrow> error + bool" where
  \<comment> \<open>\<^verbatim>\<open>self.parentEdge.to_junction.type\<close> raises AttributeError when either reference is None\<close>
  "requires_stop_line n parentEdge self =
     (case parentEdge of
        None \<Rightarrow> Inl AttributeError
      | Some e \<Rightarrow>
          (case deref_junction n (e_to_junction e) of
             None \<Rightarrow> Inl AttributeError
           | Some to_junction \<Rightarrow>
               if j_type to_junction \<in> set [''internal'', ''zipper''] then Inr False
               else if j_type to_junction = ''always_stop'' then Inr True
               else Inr (\<exists>request \<in> set (l_requests self). CHR ''1'' \<in> set (r_response request))))"

section \<open>Edge lookups\<close>

fun find_lane :: "lane list \<Rightarrow> int \<Rightarrow> nat \<Rightarrow> error + (nat \<times> lane)" where
  \<comment> \<open>the loop of \<^verbatim>\<open>_Edge.get_lane\<close>; the counter is the position of the lane in \<^verbatim>\<open>self.lanes\<close>\<close>
  "find_lane [] index pos = Inl IndexError"
| "find_lane (lane # rest) index pos =
     (if l_index lane = index then Inr (pos, lane) else find_lane rest index (Suc pos))"

definition get_lane :: "edge \<Rightarrow> int \<Rightarrow> error + (nat \<times> lane)" where
  \<comment> \<open>returns the Lane together with its position, which with the Edge's key is its reference\<close>
  "get_lane self index = find_lane (e_lanes self) index 0"

definition lane_count :: "edge \<Rightarrow> int" where
  "lane_count self = int (length (e_lanes self))"

definition inverse_lane_index :: "edge \<Rightarrow> lane \<Rightarrow> int" where
  "inverse_lane_index parentEdge self = lane_count parentEdge - l_index self - 1"

section \<open>Geometry derivation\<close>

text \<open>
  Shapely is an external library working on floating-point coordinates: its operations are
  parameters of the model, each one allowed to fail. \<open>has_substring\<close> is
  \<^verbatim>\<open>hasattr(ops, "substring")\<close>. The module globals that \<^verbatim>\<open>set_style\<close> and
  \<^verbatim>\<open>set_stripe_width_scale\<close> write are the record \<open>config\<close>.
\<close>

datatype side = Left | Right

record shapely =
  parallel_offset :: "coords \<Rightarrow> real \<Rightarrow> side \<Rightarrow> error + coords"
  has_substring :: bool
  substring :: "coords \<Rightarrow> real \<Rightarrow> real \<Rightarrow> error + coords"
  line_length :: "coords \<Rightarrow> real"
  mk_LineString :: "coords \<Rightarrow> error + coords"
  mk_Polygon :: "coords \<Rightarrow> error + coords"
  buffer_flat :: "coords \<Rightarrow> real \<Rightarrow> error + coords"

record config =
  LANE_MARKINGS_STYLE :: string
  STRIPE_WIDTH_SCALE_FACTOR :: real
  PLOT_STOP_LINES :: bool

definition USA_STYLE :: string where "USA_STYLE = ''USA''"
definition EUR_STYLE :: string where "EUR_STYLE = ''EUR''"

record LaneMarking =
  m_alignment :: coords
  m_linewidth :: real
  m_color :: string
  m_dashes :: "real \<times> real"
  m_purpose :: string

definition mk_LaneMarking :: "coords \<Rightarrow> real \<Rightarrow> string \<Rightarrow> real \<times> real \<Rightarrow> string \<Rightarrow> LaneMarking" where
  "mk_LaneMarking alignment linewidth color dashes purpose =
     \<lparr>m_alignment = alignment, m_linewidth = linewidth, m_color = color, m_dashes = dashes,
      m_purpose = purpose\<rparr>"

definition py_first :: "'a list \<Rightarrow> error + 'a" where
  \<comment> \<open>\<^verbatim>\<open>xs[0]\<close>\<close>
  "py_first xs = (case xs of [] \<Rightarrow> Inl IndexError | x # _ \<Rightarrow> Inr x)"

definition py_last :: "'a list \<Rightarrow> error + 'a" where
  \<comment> \<open>\<^verbatim>\<open>xs[-1]\<close>\<close>
  "py_last xs = (if xs = [] then Inl IndexError else Inr (last xs))"

definition py_inner :: "'a list \<Rightarrow> 'a list" where
  \<comment> \<open>\<^verbatim>\<open>xs[1:-1]\<close>\<close>
  "py_inner xs = butlast (tl xs)"

definition generate_shape :: "shapely \<Rightarrow> net \<Rightarrow> connection \<Rightarrow> error + coords" where
  "generate_shape sh n self =
     (case (deref_lane n (c_from_lane self), deref_lane n (c_to_lane self),
            deref_lane n (c_via_lane self)) of
        (Some from_lane, Some to_lane, Some via_lane) \<Rightarrow>
          bind (parallel_offset sh (l_alignment from_lane) (l_width from_lane / 2) Left)
            (\<lambda>from_lane_left_edge.
          bind (parallel_offset sh (l_alignment from_lane) (l_width from_lane / 2) Right)
            (\<lambda>from_lane_right_edge.
          bind (parallel_offset sh (l_alignment to_lane) (l_width to_lane / 2) Left)
            (\<lambda>to_lane_left_edge.
          bind (parallel_offset sh (l_alignment to_lane) (l_width to_lane / 2) Right)
            (\<lambda>to_lane_right_edge.
          bind (parallel_offset sh (l_alignment via_lane) (l_width from_lane / 2) Left)
            (\<lambda>left_edge.
          bind (parallel_offset sh (l_alignment via_lane) (l_width from_lane / 2) Right)
            (\<lambda>right_edge0.
          let right_edge = rev right_edge0 in
          bind (py_last from_lane_left_edge) (\<lambda>a.
          bind (py_first to_lane_left_edge) (\<lambda>b.
          bind (py_first from_lane_right_edge) (\<lambda>c.
          bind (py_last to_lane_right_edge) (\<lambda>d.
          let left_coords = [a] @ py_inner left_edge @ [b];
              right_coords = [c] @ py_inner right_edge @ [d];
              boundary_coords = right_coords @ rev left_coords @ [c]
          in mk_Polygon sh boundary_coords))))))))))
      | _ \<Rightarrow> Inl ReferenceError)"

section \<open>Lane markings\<close>

definition lane_stripe :: "shapely \<Rightarrow> real \<Rightarrow> edge \<Rightarrow> lane \<Rightarrow> error + LaneMarking" where
  \<comment> \<open>"Draw non-centerline markings": the same text in the USA and the EUR branch\<close>
  "lane_stripe sh lw parentEdge self =
     bind (get_lane parentEdge (l_index self + 1)) (\<lambda>(pos, adjacent_lane).
     bind (parallel_offset sh (l_alignment self) (l_width self / 2) Left) (\<lambda>leftEdge.
       let dashes =
         (if allowance_member (l_allows self) ''bicycle''
               \<noteq> allowance_member (l_allows adjacent_lane) ''bicycle''
          then (100, 0)
          else if allowance_member (l_allows self) ''passenger''
               \<noteq> allowance_member (l_allows adjacent_lane) ''passenger''
          then (if allowance_member (l_allows self) ''bicycle'' then (1, 3) else (100, 0))
          else (3, 9))
       in Inr (mk_LaneMarking leftEdge lw ''w'' dashes ''lane'')))"

definition outer_stripe :: "shapely \<Rightarrow> real \<Rightarrow> lane \<Rightarrow> LaneMarking list \<Rightarrow> error + LaneMarking list" where
  \<comment> \<open>"draw outer lane marking if necessary": the same text in both branches\<close>
  "outer_stripe sh lw self markings =
     (if l_index self = 0
         \<and> \<not> (allowance_member (l_allows self) ''pedestrian''
              \<and> \<not> allowance_member (l_allows self) ''all'')
      then bind (parallel_offset sh (l_alignment self) (l_width self / 2) Right) (\<lambda>rightEdge.
             Inr (markings @ [mk_LaneMarking rightEdge lw ''w'' (100, 0) ''outer'']))
      else Inr markings)"

definition style_markings :: "shapely \<Rightarrow> config \<Rightarrow> edge \<Rightarrow> lane \<Rightarrow> error + LaneMarking list" where
  "style_markings sh cfg parentEdge self =
     (let lw = 0.1 * STRIPE_WIDTH_SCALE_FACTOR cfg in
      if LANE_MARKINGS_STYLE cfg = USA_STYLE then
        bind (if inverse_lane_index parentEdge self = 0
              then bind (parallel_offset sh (l_alignment self) (l_width self / 2 - lw) Left)
                     (\<lambda>leftEdge. Inr [mk_LaneMarking leftEdge lw ''y'' (100, 0) ''center''])
              else bind (lane_stripe sh lw parentEdge self) (\<lambda>m. Inr [m]))
          (outer_stripe sh lw self)
      else if LANE_MARKINGS_STYLE cfg = EUR_STYLE then
        bind (if inverse_lane_index parentEdge self = 0
              then bind (parallel_offset sh (l_alignment self) (l_width self / 2) Left)
                     (\<lambda>leftEdge. Inr [mk_LaneMarking leftEdge lw ''w'' (100, 0) ''center''])
              else bind (lane_stripe sh lw parentEdge self) (\<lambda>m. Inr [m]))
          (outer_stripe sh lw self)
      else Inr [])"

definition slw :: real where "slw = 0.5"

definition stop_line_marking :: "shapely \<Rightarrow> lane \<Rightarrow> real \<Rightarrow> error + LaneMarking" where
  \<comment> \<open>the body of the stop-line loop after the \<^verbatim>\<open>hasattr\<close> test\<close>
  "stop_line_marking sh self stop_line_location =
     (let pos = line_length sh (l_alignment self) - stop_line_location - slw / 2 in
      bind (substring sh (l_alignment self) (pos - 1) pos) (\<lambda>end_cl.
      bind (parallel_offset sh end_cl (l_width self / 2) Left) (\<lambda>end_left.
      bind (parallel_offset sh end_cl (l_width self / 2) Right) (\<lambda>end_right.
      bind (py_last end_left) (\<lambda>a.
      bind (py_first end_right) (\<lambda>b.
      bind (mk_LineString sh [a, b]) (\<lambda>stop_line.
        Inr (mk_LaneMarking stop_line slw ''w'' (100, 0) ''stopline''))))))))"

fun stop_line_loop :: "shapely \<Rightarrow> lane \<Rightarrow> real list \<Rightarrow> LaneMarking list \<Rightarrow> error + LaneMarking list" where
  \<comment> \<open>\<^verbatim>\<open>for stop_line_location in self.get_stop_line_locations()\<close>; without
      \<^verbatim>\<open>ops.substring\<close> the loop warns and breaks\<close>
  "stop_line_loop sh self [] markings = Inr markings"
| "stop_line_loop sh self (stop_line_location # rest) markings =
     (if \<not> has_substring sh then Inr markings
      else bind (stop_line_marking sh self stop_line_location) (\<lambda>m.
             stop_line_loop sh self rest (markings @ [m])))"

definition guess_lane_markings ::
    "shapely \<Rightarrow> config \<Rightarrow> net \<Rightarrow> edge option \<Rightarrow> lane \<Rightarrow> error + LaneMarking list" where
  "guess_lane_markings sh cfg n parentEdge self =
     (case parentEdge of
        None \<Rightarrow> Inl AttributeError
      | Some e \<Rightarrow>
          if e_function e = ''internal'' \<or> allowance_eq (l_allows self) ''ship''
             \<or> allowance_eq (l_allows self) ''rail''
          then Inr []
          else if e_function e = ''crossing''
          then Inr [mk_LaneMarking (l_alignment self) (l_width self) ''w'' (0.5, 0.5) ''crossing'']
          else
            bind (style_markings sh cfg e self) (\<lambda>markings.
              if PLOT_STOP_LINES cfg
                 \<and> \<not> (allowance_eq (l_allows self) ''pedestrian''
                      \<or> allowance_eq (l_allows self) ''ship'')
              then bind (requires_stop_line n parentEdge self) (\<lambda>required.
                     if required
                     then stop_line_loop sh self (get_stop_line_locations parentEdge self) markings
                     else Inr markings)
              else Inr markings))"

section \<open>Python strings and integers\<close>

text \<open>
  Strings are taken to be ASCII. \<open>split_on\<close> is \<^verbatim>\<open>s.split(sep)\<close> for a one-character
  separator, \<open>join\<close> is \<^verbatim>\<open>sep.join(parts)\<close>, \<open>py_int\<close> is \<^verbatim>\<open>int(s)\<close> (surrounding white space,
  an optional sign, then decimal digits that single underscores may group, at most
  \<open>max_str_digits\<close> of them; anything else raises ValueError) and \<open>py_str\<close> is
  \<^verbatim>\<open>str(i)\<close> for an integer.
\<close>

fun split_on :: "char \<Rightarrow> string \<Rightarrow> string list" where
  "split_on sep [] = [[]]"
| "split_on sep (c # cs) =
     (if c = sep then [] # split_on sep cs
      else (case split_on sep cs of [] \<Rightarrow> [[c]] | w # ws \<Rightarrow> (c # w) # ws))"

fun join :: "string \<Rightarrow> string list \<Rightarrow> string" where
  "join sep [] = []"
| "join sep [x] = x"
| "join sep (x # y # ys) = x @ sep @ join sep (y # ys)"

definition is_space :: "char \<Rightarrow> bool" where
  \<comment> \<open>the white space that \<^verbatim>\<open>int\<close> skips in an ASCII string: tab, line feed, vertical tab, form
      feed, carriage return and space\<close>
  "is_space c = ((of_char c :: nat) \<in> {9, 10, 11, 12, 13, 32})"

definition is_digit :: "char \<Rightarrow> bool" where
  "is_digit c = (48 \<le> (of_char c :: nat) \<and> (of_char c :: nat) \<le> 57)"

definition strip :: "string \<Rightarrow> string" where
  "strip s = rev (dropWhile is_space (rev (dropWhile is_space s)))"

definition digits_value :: "string \<Rightarrow> nat" where
  "digits_value ds = foldl (\<lambda>a c. 10 * a + (of_char c - 48)) 0 ds"

fun grouped_digits :: "string \<Rightarrow> bool" where
  \<comment> \<open>decimal digits, any two of them separated by at most one underscore\<close>
  "grouped_digits [] = False"
| "grouped_digits [c] = is_digit c"
| "grouped_digits (c # d # r) =
     (is_digit c \<and> (if d = CHR ''_'' then r \<noteq> [] \<and> grouped_digits r else grouped_digits (d # r)))"

definition max_str_digits :: nat where
  \<comment> \<open>the default of \<^verbatim>\<open>sys.int_max_str_digits\<close>\<close>
  "max_str_digits = 4300"

definition py_int :: "string \<Rightarrow> error + int" where
  "py_int s =
     (let t = strip s;
          negative = (t \<noteq> [] \<and> hd t = CHR ''-'');
          ds = (if t \<noteq> [] \<and> (hd t = CHR ''-'' \<or> hd t = CHR ''+'') then tl t else t);
          ds' = filter (\<lambda>c. c \<noteq> CHR ''_'') ds;
          v = int (digits_value ds')
      in if grouped_digits ds \<and> length ds' \<le> max_str_digits
         then Inr (if negative then - v else v)
         else Inl ValueError)"

fun digits :: "nat \<Rightarrow> string" where
  "digits n =
     (if n < 10 then [char_of (48 + n)] else digits (n div 10) @ [char_of (48 + n mod 10)])"

declare digits.simps [simp del]

definition py_str :: "int \<Rightarrow> string" where
  "py_str i = (if i < 0 then CHR ''-'' # digits (nat (- i)) else digits (nat i))"

fun index_of :: "'a list \<Rightarrow> 'a \<Rightarrow> nat option" where
  \<comment> \<open>\<^verbatim>\<open>xs.index(x)\<close>; \<open>None\<close> is its ValueError\<close>
  "index_of [] x = None"
| "index_of (y # ys) x = (if y = x then Some 0 else map_option Suc (index_of ys x))"

section \<open>Junction lookups\<close>

fun find_request :: "request list \<Rightarrow> int \<Rightarrow> error + request" where
  \<comment> \<open>the loop of \<^verbatim>\<open>get_request_by_index\<close>\<close>
  "find_request [] index = Inl IndexError"
| "find_request (req # rest) index =
     (if r_index req = index then Inr req else find_request rest index)"

definition get_request_by_index :: "junction \<Rightarrow> int \<Rightarrow> error + request" where
  "get_request_by_index self index = find_request (j_requests self) index"

definition get_request_by_int_lane :: "junction \<Rightarrow> string option \<Rightarrow> error + request" where
  \<comment> \<open>With \<^verbatim>\<open>lane_id\<close> None, \<^verbatim>\<open>list.index\<close> raises ValueError, and building the message of the
      IndexError concatenates a string and None: a TypeError leaves the handler.\<close>
  "get_request_by_int_lane self lane_id =
     (case lane_id of
        None \<Rightarrow> Inl TypeError
      | Some i \<Rightarrow>
          (case index_of (j_intLane_ids self) i of
             None \<Rightarrow> Inl IndexError
           | Some index \<Rightarrow> get_request_by_index self (int index)))"

section \<open>The linking pass\<close>

definition junctions_get :: "net \<Rightarrow> string option \<Rightarrow> string option" where
  \<comment> \<open>\<^verbatim>\<open>self.junctions.get(key, None)\<close>, as a reference\<close>
  "junctions_get n key =
     (case key of
        None \<Rightarrow> None
      | Some k \<Rightarrow> (case map_of (junctions n) k of None \<Rightarrow> None | Some j \<Rightarrow> Some k))"

definition edges_get :: "net \<Rightarrow> string \<Rightarrow> string option" where
  \<comment> \<open>\<^verbatim>\<open>self.edges.get(key, None)\<close>, as a reference\<close>
  "edges_get n k = (case map_of (edges n) k of None \<Rightarrow> None | Some e \<Rightarrow> Some k)"

definition edge_get_lane :: "net \<Rightarrow> string \<Rightarrow> int \<Rightarrow> error + lane_ref option" where
  \<comment> \<open>\<^verbatim>\<open>edge.get_lane(index) if edge is not None else None\<close> for the edge of key \<open>k\<close>\<close>
  "edge_get_lane n k index =
     (case map_of (edges n) k of
        None \<Rightarrow> Inr None
      | Some edge \<Rightarrow> bind (get_lane edge index) (\<lambda>(pos, lane). Inr (Some (k, pos))))"

definition Net_get_lane :: "net \<Rightarrow> string \<Rightarrow> error + lane_ref option" where
  \<comment> \<open>\<^verbatim>\<open>Net._get_lane\<close>\<close>
  "Net_get_lane n lane_id =
     (let edge_id = join ''_'' (butlast (split_on CHR ''_'' lane_id)) in
      bind (py_int (last (split_on CHR ''_'' lane_id))) (\<lambda>lane_num.
        edge_get_lane n edge_id lane_num))"

definition get_connections_from_lane :: "net \<Rightarrow> string \<Rightarrow> cxn_ref list" where
  "get_connections_from_lane n lane_id =
     filter (\<lambda>i. c_from_edge_id (connections n ! i) @ ''_''
                  @ py_str (c_from_lane_index (connections n ! i)) = lane_id)
       [0..<length (connections n)]"

definition get_connections_to_lane :: "net \<Rightarrow> string \<Rightarrow> cxn_ref list" where
  "get_connections_to_lane n lane_id =
     filter (\<lambda>i. c_to_edge_id (connections n ! i) @ ''_''
                  @ py_str (c_to_lane_index (connections n ! i)) = lane_id)
       [0..<length (connections n)]"

definition link_edge :: "net \<Rightarrow> edge \<Rightarrow> edge" where
  "link_edge n edge =
     edge\<lparr>e_from_junction := junctions_get n (e_from_junction_id edge),
          e_to_junction := junctions_get n (e_to_junction_id edge)\<rparr>"

definition link_edges :: "net \<Rightarrow> net" where
  \<comment> \<open>"link junctions to edges"\<close>
  "link_edges n = n\<lparr>edges := map (\<lambda>(k, edge). (k, link_edge n edge)) (edges n)\<rparr>"

fun resolve_lanes :: "net \<Rightarrow> string list \<Rightarrow> lane_ref list \<Rightarrow> error + lane_ref list" where
  \<comment> \<open>\<^verbatim>\<open>for i in ids: lane = self._get_lane(i); if lane is not None: lanes.append(lane)\<close>\<close>
  "resolve_lanes n [] lanes = Inr lanes"
| "resolve_lanes n (i # ids) lanes =
     bind (Net_get_lane n i) (\<lambda>lane.
       resolve_lanes n ids (case lane of None \<Rightarrow> lanes | Some r \<Rightarrow> lanes @ [r]))"

fun internal_requests :: "junction \<Rightarrow> connection list \<Rightarrow> request list \<Rightarrow> error + request list" where
  \<comment> \<open>\<^verbatim>\<open>for cxni in cxns_internal\<close>, one level deeper\<close>
  "internal_requests junction [] reqs = Inr reqs"
| "internal_requests junction (cxni # rest) reqs =
     bind (get_request_by_int_lane junction (c_via_id cxni)) (\<lambda>req.
       internal_requests junction rest (reqs @ [req]))"

definition connection_requests :: "net \<Rightarrow> junction \<Rightarrow> connection \<Rightarrow> error + request list" where
  \<comment> \<open>the list \<^verbatim>\<open>reqs\<close> that the body of \<^verbatim>\<open>for cxn in lane.outgoing_connections\<close> builds; only
      IndexError is caught\<close>
  "connection_requests n junction cxn =
     (case c_via_id cxn of
        None \<Rightarrow> Inr []
      | Some via \<Rightarrow>
          (case get_request_by_int_lane junction (Some via) of
             Inr req \<Rightarrow> Inr [req]
           | Inl err \<Rightarrow>
               if err = IndexError
               then internal_requests junction
                      (map (\<lambda>i. connections n ! i) (get_connections_from_lane n via)) []
               else Inl err))"

fun link_outgoing :: "net \<Rightarrow> junction \<Rightarrow> cxn_ref list \<Rightarrow> request list \<Rightarrow> error + request list" where
  \<comment> \<open>\<^verbatim>\<open>for cxn in lane.outgoing_connections\<close>; the state is \<^verbatim>\<open>lane.requests\<close>\<close>
  "link_outgoing n junction [] requests = Inr requests"
| "link_outgoing n junction (c # cs) requests =
     bind (connection_requests n junction (connections n ! c)) (\<lambda>reqs.
       link_outgoing n junction cs (requests @ reqs))"

definition update_lane :: "lane_ref \<Rightarrow> (lane \<Rightarrow> lane) \<Rightarrow> net \<Rightarrow> net" where
  \<comment> \<open>writing to the Lane object behind a reference\<close>
  "update_lane r f n =
     n\<lparr>edges := AList.map_entry (fst r)
                   (\<lambda>e. e\<lparr>e_lanes := (e_lanes e)[snd r := f (e_lanes e ! snd r)]\<rparr>) (edges n)\<rparr>"

definition link_lane :: "junction \<Rightarrow> net \<Rightarrow> lane_ref \<Rightarrow> error + net" where
  \<comment> \<open>the body of \<^verbatim>\<open>for lane in junction.incLanes\<close>\<close>
  "link_lane junction n r =
     (case lane_at n r of
        None \<Rightarrow> Inr n
      | Some lane \<Rightarrow>
          bind (link_outgoing n junction (get_connections_from_lane n (l_id lane))
                  (l_requests lane)) (\<lambda>requests.
            Inr (update_lane r
                   (\<lambda>l. l\<lparr>l_incoming_connections := get_connections_to_lane n (l_id lane),
                          l_outgoing_connections := get_connections_from_lane n (l_id lane),
                          l_requests := requests\<rparr>) n)))"

fun link_lanes :: "junction \<Rightarrow> lane_ref list \<Rightarrow> net \<Rightarrow> error + net" where
  "link_lanes junction [] n = Inr n"
| "link_lanes junction (r # rs) n = bind (link_lane junction n r) (link_lanes junction rs)"

definition link_junction :: "nat \<Rightarrow> net \<Rightarrow> error + net" where
  \<comment> \<open>the body of \<^verbatim>\<open>for junction in self.junctions.values()\<close>, for the junction at position
      \<open>i\<close> of the dict\<close>
  "link_junction i n =
     (case junctions n ! i of (k, junction) \<Rightarrow>
        if j_type junction = ''internal'' then Inr n
        else
          bind (resolve_lanes n (j_incLane_ids junction) (j_incLanes junction)) (\<lambda>incLanes.
          bind (resolve_lanes n (j_intLane_ids junction) (j_intLanes junction)) (\<lambda>intLanes.
            link_lanes (junction\<lparr>j_incLanes := incLanes, j_intLanes := intLanes\<rparr>) incLanes
              (n\<lparr>junctions := (junctions n)
                    [i := (k, junction\<lparr>j_incLanes := incLanes, j_intLanes := intLanes\<rparr>)]\<rparr>))))"

fun link_junctions :: "nat list \<Rightarrow> net \<Rightarrow> error + net" where
  "link_junctions [] n = Inr n"
| "link_junctions (i # rest) n = bind (link_junction i n) (link_junctions rest)"

definition link_connection :: "net \<Rightarrow> connection \<Rightarrow> error + connection" where
  \<comment> \<open>the body of \<^verbatim>\<open>for connection in self.connections\<close>\<close>
  "link_connection n connection =
     bind (case c_via_id connection of
             None \<Rightarrow> Inr (c_via_lane connection)
           | Some via \<Rightarrow> Net_get_lane n via) (\<lambda>via_lane.
     bind (case edges_get n (c_from_edge_id connection) of
             None \<Rightarrow> Inr (c_from_lane connection)
           | Some k \<Rightarrow> edge_get_lane n k (c_from_lane_index connection)) (\<lambda>from_lane.
     bind (case edges_get n (c_to_edge_id connection) of
             None \<Rightarrow> Inr (c_to_lane connection)
           | Some k \<Rightarrow> edge_get_lane n k (c_to_lane_index connection)) (\<lambda>to_lane.
       Inr (connection\<lparr>c_via_lane := via_lane,
                       c_from_edge := edges_get n (c_from_edge_id connection),
                       c_from_lane := from_lane,
                       c_to_edge := edges_get n (c_to_edge_id connection),
                       c_to_lane := to_lane\<rparr>))))"

fun link_connections :: "net \<Rightarrow> connection list \<Rightarrow> error + connection list" where
  "link_connections n [] = Inr []"
| "link_connections n (connection # rest) =
     bind (link_connection n connection) (\<lambda>c.
     bind (link_connections n rest) (\<lambda>cs. Inr (c # cs)))"

definition link_objects :: "net \<Rightarrow> error + net" where
  "link_objects n =
     bind (link_junctions [0..<length (junctions n)] (link_edges n)) (\<lambda>n'.
     bind (link_connections n' (connections n')) (\<lambda>cs. Inr (n'\<lparr>connections := cs\<rparr>)))"

section \<open>Construction of a network\<close>

text \<open>
  \<^verbatim>\<open>Net.__init__\<close> reads the children of the root of the parsed network file: an element has a
  tag, a dict of attributes and children. \<^verbatim>\<open>float\<close> and the constructor of \<^verbatim>\<open>Allowance\<close>
  (module \<^verbatim>\<open>_Utils\<close>, not among the sources) are parameters, each allowed to fail. The model
  covers the call without additional files.
\<close>

datatype xml = Element (tag: string) (attrib: "(string \<times> string) list") (children: "xml list")

record external =
  py_float :: "string \<Rightarrow> error + real"
  Allowance :: "string \<Rightarrow> string \<Rightarrow> error + allowance"

definition getitem :: "(string \<times> string) list \<Rightarrow> string \<Rightarrow> error + string" where
  \<comment> \<open>\<^verbatim>\<open>attrib[key]\<close>\<close>
  "getitem d key = (case map_of d key of None \<Rightarrow> Inl KeyError | Some v \<Rightarrow> Inr v)"

definition get_or :: "(string \<times> string) list \<Rightarrow> string \<Rightarrow> string \<Rightarrow> string" where
  \<comment> \<open>\<^verbatim>\<open>attrib[key] if key in attrib else default\<close>\<close>
  "get_or d key dflt = (case map_of d key of None \<Rightarrow> dflt | Some v \<Rightarrow> v)"

fun mapM :: "('a \<Rightarrow> error + 'b) \<Rightarrow> 'a list \<Rightarrow> error + 'b list" where
  \<comment> \<open>a list comprehension whose element expression can raise\<close>
  "mapM f [] = Inr []"
| "mapM f (x # xs) = bind (f x) (\<lambda>y. bind (mapM f xs) (\<lambda>ys. Inr (y # ys)))"

definition parse_coords :: "external \<Rightarrow> string \<Rightarrow> error + coords" where
  \<comment> \<open>\<^verbatim>\<open>[[float(coord) for coord in xy.split(",")] for xy in s.split(" ")]\<close>\<close>
  "parse_coords ext s =
     mapM (\<lambda>xy. mapM (py_float ext) (split_on CHR '','' xy)) (split_on CHR '' '' s)"

definition DEFAULT_LANE_WIDTH :: real where "DEFAULT_LANE_WIDTH = 3.2"

definition stop_offset :: "external \<Rightarrow> (string \<times> string) list \<Rightarrow> error + (real \<times> allowance)" where
  \<comment> \<open>the pair that \<^verbatim>\<open>append_stop_offset\<close> appends, the same text for Edge and Lane\<close>
  "stop_offset ext a =
     bind (getitem a ''value'') (\<lambda>v.
     bind (py_float ext v) (\<lambda>val.
     bind (Allowance ext (get_or a ''vClasses'' []) (get_or a ''exceptions'' [])) (\<lambda>vClasses.
       Inr (val, vClasses))))"

definition Edge_init :: "(string \<times> string) list \<Rightarrow> error + edge" where
  "Edge_init a =
     bind (getitem a ''id'') (\<lambda>i.
       Inr \<lparr>e_id = i, e_function = get_or a ''function'' ''normal'',
            e_from_junction_id = map_of a ''from'', e_to_junction_id = map_of a ''to'',
            e_from_junction = None, e_to_junction = None, e_lanes = [], e_stop_offsets = []\<rparr>)"

definition Lane_init :: "external \<Rightarrow> shapely \<Rightarrow> (string \<times> string) list \<Rightarrow> error + lane" where
  "Lane_init ext sh a =
     bind (getitem a ''id'') (\<lambda>i.
     bind (getitem a ''index'') (\<lambda>ix.
     bind (py_int ix) (\<lambda>idx.
     bind (getitem a ''speed'') (\<lambda>sp.
     bind (py_float ext sp) (\<lambda>speed.
     bind (Allowance ext (get_or a ''allow'' []) (get_or a ''disallow'' [])) (\<lambda>allows.
     bind (case map_of a ''width'' of None \<Rightarrow> Inr DEFAULT_LANE_WIDTH | Some w \<Rightarrow> py_float ext w)
       (\<lambda>width.
     bind (getitem a ''shape'') (\<lambda>shp.
     bind (parse_coords ext shp) (\<lambda>cs.
     bind (mk_LineString sh cs) (\<lambda>alignment.
     bind (buffer_flat sh alignment (width / 2)) (\<lambda>shape.
       Inr \<lparr>l_id = i, l_index = idx, l_speed = speed, l_allows = allows, l_width = width,
            l_endOffset = map_of a ''endOffset'',
            l_acceleration = get_or a ''acceleration'' ''False'',
            l_alignment = alignment, l_shape = shape, l_stop_offsets = [],
            l_incoming_connections = [], l_outgoing_connections = [],
            l_requests = []\<rparr>)))))))))))"

definition Request_init :: "(string \<times> string) list \<Rightarrow> error + request" where
  "Request_init a =
     bind (getitem a ''index'') (\<lambda>ix.
     bind (py_int ix) (\<lambda>idx.
     bind (getitem a ''response'') (\<lambda>response.
     bind (getitem a ''foes'') (\<lambda>foes.
     bind (getitem a ''cont'') (\<lambda>cont.
       Inr \<lparr>r_index = idx, r_response = response, r_foes = foes, r_cont = cont,
            r_parentJunction = None\<rparr>)))))"

definition split_ids :: "string \<Rightarrow> string list" where
  \<comment> \<open>\<^verbatim>\<open>s.split(" ") if s != "" else []\<close>\<close>
  "split_ids s = (if s \<noteq> [] then split_on CHR '' '' s else [])"

definition Junction_init :: "external \<Rightarrow> shapely \<Rightarrow> (string \<times> string) list \<Rightarrow> error + junction" where
  "Junction_init ext sh a =
     bind (getitem a ''id'') (\<lambda>i.
     bind (getitem a ''type'') (\<lambda>t.
     bind (getitem a ''incLanes'') (\<lambda>inc.
     bind (getitem a ''intLanes'') (\<lambda>intl.
     bind (case map_of a ''shape'' of
             None \<Rightarrow> Inr None
           | Some shp \<Rightarrow>
               bind (parse_coords ext shp) (\<lambda>cs.
                 if length cs > 2 then bind (mk_Polygon sh cs) (\<lambda>p. Inr (Some p))
                 else Inr None)) (\<lambda>shape.
       Inr \<lparr>j_id = i, j_type = t, j_incLane_ids = split_ids inc, j_intLane_ids = split_ids intl,
            j_incLanes = [], j_intLanes = [], j_requests = [], j_shape = shape\<rparr>)))))"

definition Connection_init :: "external \<Rightarrow> shapely \<Rightarrow> (string \<times> string) list \<Rightarrow> error + connection" where
  "Connection_init ext sh a =
     bind (getitem a ''from'') (\<lambda>from_edge_id.
     bind (getitem a ''to'') (\<lambda>to_edge_id.
     bind (getitem a ''fromLane'') (\<lambda>fl.
     bind (py_int fl) (\<lambda>from_lane_index.
     bind (getitem a ''toLane'') (\<lambda>tl.
     bind (py_int tl) (\<lambda>to_lane_index.
     bind (getitem a ''dir'') (\<lambda>dir.
     bind (getitem a ''state'') (\<lambda>state.
     bind (case map_of a ''shape'' of
             None \<Rightarrow> Inr None
           | Some shp \<Rightarrow>
               bind (parse_coords ext shp) (\<lambda>cs.
               bind (mk_LineString sh cs) (\<lambda>ls. Inr (Some ls)))) (\<lambda>shape.
       Inr \<lparr>c_from_edge_id = from_edge_id, c_to_edge_id = to_edge_id, c_from_edge = None,
            c_to_edge = None, c_from_lane_index = from_lane_index,
            c_to_lane_index = to_lane_index, c_from_lane = None, c_to_lane = None,
            c_via_id = map_of a ''via'', c_via_lane = None, c_dir = dir, c_state = state,
            c_shape = shape\<rparr>)))))))))"

fun lane_children :: "external \<Rightarrow> xml list \<Rightarrow> lane \<Rightarrow> error + lane" where
  \<comment> \<open>\<^verbatim>\<open>for laneChild in edgeChild\<close>\<close>
  "lane_children ext [] lane = Inr lane"
| "lane_children ext (laneChild # rest) lane =
     (if tag laneChild = ''stopOffset''
      then bind (stop_offset ext (attrib laneChild)) (\<lambda>so.
             lane_children ext rest (lane\<lparr>l_stop_offsets := l_stop_offsets lane @ [so]\<rparr>))
      else lane_children ext rest lane)"

fun edge_children :: "external \<Rightarrow> shapely \<Rightarrow> xml list \<Rightarrow> edge \<Rightarrow> error + edge" where
  \<comment> \<open>\<^verbatim>\<open>for edgeChild in obj\<close>\<close>
  "edge_children ext sh [] edge = Inr edge"
| "edge_children ext sh (edgeChild # rest) edge =
     (if tag edgeChild = ''stopOffset''
      then bind (stop_offset ext (attrib edgeChild)) (\<lambda>so.
             edge_children ext sh rest (edge\<lparr>e_stop_offsets := e_stop_offsets edge @ [so]\<rparr>))
      else if tag edgeChild = ''lane''
      then bind (Lane_init ext sh (attrib edgeChild)) (\<lambda>lane0.
           bind (lane_children ext (children edgeChild) lane0) (\<lambda>lane.
             edge_children ext sh rest (edge\<lparr>e_lanes := e_lanes edge @ [lane]\<rparr>)))
      else edge_children ext sh rest edge)"

fun junction_children :: "xml list \<Rightarrow> junction \<Rightarrow> error + junction" where
  \<comment> \<open>\<^verbatim>\<open>for jnChild in obj\<close>; \<^verbatim>\<open>append_request\<close> sets the Request's parent\<close>
  "junction_children [] junction = Inr junction"
| "junction_children (jnChild # rest) junction =
     (if tag jnChild = ''request''
      then bind (Request_init (attrib jnChild)) (\<lambda>req.
             junction_children rest
               (junction\<lparr>j_requests := j_requests junction
                            @ [req\<lparr>r_parentJunction := Some (j_id junction)\<rparr>]\<rparr>))
      else junction_children rest junction)"

definition load_object :: "external \<Rightarrow> shapely \<Rightarrow> xml \<Rightarrow> net \<Rightarrow> error + net" where
  \<comment> \<open>the body of \<^verbatim>\<open>for obj in net\<close>\<close>
  "load_object ext sh obj n =
     (if tag obj = ''edge'' then
        (if map_of (attrib obj) ''function'' = Some ''walkingarea'' then Inr n
         else
           bind (Edge_init (attrib obj)) (\<lambda>edge0.
           bind (edge_children ext sh (children obj) edge0) (\<lambda>edge.
             Inr (n\<lparr>edges := AList.update (e_id edge) edge (edges n)\<rparr>))))
      else if tag obj = ''junction'' then
        bind (Junction_init ext sh (attrib obj)) (\<lambda>junction0.
        bind (junction_children (children obj) junction0) (\<lambda>junction.
          Inr (n\<lparr>junctions := AList.update (j_id junction) junction (junctions n)\<rparr>)))
      else if tag obj = ''connection'' then
        bind (Connection_init ext sh (attrib obj)) (\<lambda>connection.
          Inr (n\<lparr>connections := connections n @ [connection]\<rparr>))
      else Inr n)"

fun load_objects :: "external \<Rightarrow> shapely \<Rightarrow> xml list \<Rightarrow> net \<Rightarrow> error + net" where
  "load_objects ext sh [] n = Inr n"
| "load_objects ext sh (obj # rest) n =
     bind (load_object ext sh obj n) (load_objects ext sh rest)"

definition Net_init :: "external \<Rightarrow> shapely \<Rightarrow> xml list \<Rightarrow> error + net" where
  "Net_init ext sh objs =
     bind (load_objects ext sh objs \<lparr>edges = [], junctions = [], connections = []\<rparr>)
       link_objects"

definition is_walkingarea :: "xml \<Rightarrow> bool" where
  \<comment> \<open>an edge record whose function is "walkingarea"\<close>
  "is_walkingarea obj =
     (tag obj = ''edge'' \<and> map_of (attrib obj) ''function'' = Some ''walkingarea'')"

section \<open>The part of a network that its records determine\<close>

text \<open>
  The fields that the linking pass writes are the junction references of an Edge, the lane
  lists of a Junction, the connection and Request lists of a Lane and the edge and lane
  references of a Connection. \<open>static\<close> resets them to their values at construction.
\<close>

definition static_lane :: "lane \<Rightarrow> lane" where
  "static_lane l = l\<lparr>l_incoming_connections := [], l_outgoing_connections := [], l_requests := []\<rparr>"

definition static_edge :: "edge \<Rightarrow> edge" where
  "static_edge e =
     e\<lparr>e_from_junction := None, e_to_junction := None, e_lanes := map static_lane (e_lanes e)\<rparr>"

definition static_junction :: "junction \<Rightarrow> junction" where
  "static_junction j = j\<lparr>j_incLanes := [], j_intLanes := []\<rparr>"

definition static_connection :: "connection \<Rightarrow> connection" where
  "static_connection c =
     c\<lparr>c_from_edge := None, c_to_edge := None, c_from_lane := None, c_to_lane := None,
       c_via_lane := None\<rparr>"

definition static :: "net \<Rightarrow> net" where
  "static n =
     \<lparr>edges = map (\<lambda>(k, e). (k, static_edge e)) (edges n),
      junctions = map (\<lambda>(k, j). (k, static_junction j)) (junctions n),
      connections = map static_connection (connections n)\<rparr>"

section \<open>What a second run of the linking pass leaves as it is\<close>









section \<open>Readings of the specification used for comparison\<close>

text \<open>
  The specification speaks of a '1' "at the position corresponding to this movement" in the
  response bitstring of a Request. A Request is the row of one movement, the one numbered
  \<open>r_index\<close>; the position of that movement in the bitstring is its index, counted from the
  right (the network format's convention) or from the left. Both readings are written out;
  they follow the specification's words, not the code.
\<close>

definition spec_own_position_from_right :: "request \<Rightarrow> bool" where
  "spec_own_position_from_right r =
     (0 \<le> r_index r \<and> nat (r_index r) < length (r_response r)
      \<and> rev (r_response r) ! nat (r_index r) = CHR ''1'')"

definition spec_own_position_from_left :: "request \<Rightarrow> bool" where
  "spec_own_position_from_left r =
     (0 \<le> r_index r \<and> nat (r_index r) < length (r_response r)
      \<and> r_response r ! nat (r_index r) = CHR ''1'')"

definition stoplines :: "LaneMarking list \<Rightarrow> LaneMarking list" where
  \<comment> \<open>the markings of purpose "stopline" in a derived marking list\<close>
  "stoplines ms = filter (\<lambda>m. m_purpose m = ''stopline'') ms"


section \<open>Example objects\<close>

definition ex_lane :: "string \<Rightarrow> int \<Rightarrow> allowance \<Rightarrow> lane" where
  "ex_lane i k a =
     \<lparr>l_id = i, l_index = k, l_speed = 13.89, l_allows = a, l_width = 3.2,
      l_endOffset = None, l_acceleration = ''False'', l_alignment = [[0, 0], [10, 0]],
      l_shape = [[0, -1.6], [10, -1.6], [10, 1.6], [0, 1.6], [0, -1.6]], l_stop_offsets = [],
      l_incoming_connections = [], l_outgoing_connections = [], l_requests = []\<rparr>"

definition ex_edge :: "string \<Rightarrow> string \<Rightarrow> string option \<Rightarrow> lane list \<Rightarrow> edge" where
  "ex_edge i f to ls =
     \<lparr>e_id = i, e_function = f, e_from_junction_id = None, e_to_junction_id = to,
      e_from_junction = None, e_to_junction = None, e_lanes = ls, e_stop_offsets = []\<rparr>"

definition ex_request :: "string \<Rightarrow> int \<Rightarrow> string \<Rightarrow> request" where
  "ex_request j k resp =
     \<lparr>r_index = k, r_response = resp, r_foes = resp, r_cont = ''0'', r_parentJunction = Some j\<rparr>"

definition ex_junction :: "string \<Rightarrow> string \<Rightarrow> string list \<Rightarrow> string list \<Rightarrow> request list \<Rightarrow> junction" where
  "ex_junction i t inc intl reqs =
     \<lparr>j_id = i, j_type = t, j_incLane_ids = inc, j_intLane_ids = intl, j_incLanes = [],
      j_intLanes = [], j_requests = reqs, j_shape = None\<rparr>"

definition ex_connection :: "string \<Rightarrow> int \<Rightarrow> string \<Rightarrow> int \<Rightarrow> string option \<Rightarrow> connection" where
  "ex_connection fe fi te ti via =
     \<lparr>c_from_edge_id = fe, c_to_edge_id = te, c_from_edge = None, c_to_edge = None,
      c_from_lane_index = fi, c_to_lane_index = ti, c_from_lane = None, c_to_lane = None,
      c_via_id = via, c_via_lane = None, c_dir = ''s'', c_state = ''M'', c_shape = None\<rparr>"

definition ex_shapely :: shapely where
  \<comment> \<open>a stand-in for Shapely that hands every line back unchanged\<close>
  "ex_shapely =
     \<lparr>parallel_offset = (\<lambda>cs d s. Inr cs), has_substring = True,
      substring = (\<lambda>cs a b. Inr cs), line_length = (\<lambda>cs. 10), mk_LineString = Inr,
      mk_Polygon = Inr, buffer_flat = (\<lambda>cs d. Inr cs)\<rparr>"

definition ex_config :: config where
  \<comment> \<open>the initial values of the module globals\<close>
  "ex_config =
     \<lparr>LANE_MARKINGS_STYLE = EUR_STYLE, STRIPE_WIDTH_SCALE_FACTOR = 1, PLOT_STOP_LINES = True\<rparr>"

definition ex_linked_edge :: "allowance \<Rightarrow> request list \<Rightarrow> edge" where
  \<comment> \<open>a two-lane edge "e", already linked to its destination junction "J"; lane 0 has the
      given permissions and Request list\<close>
  "ex_linked_edge a reqs =
     (ex_edge ''e'' ''normal'' (Some ''J'')
        [(ex_lane ''e_0'' 0 a)\<lparr>l_requests := reqs\<rparr>, ex_lane ''e_1'' 1 {''passenger''}])
       \<lparr>e_to_junction := Some ''J''\<rparr>"

definition ex_linked_net :: "string \<Rightarrow> allowance \<Rightarrow> request list \<Rightarrow> net" where
  \<comment> \<open>the edge above feeding a junction "J" of the given type\<close>
  "ex_linked_net t a reqs =
     \<lparr>edges = [(''e'', ex_linked_edge a reqs)],
      junctions = [(''J'', (ex_junction ''J'' t [''e_0'', ''e_1''] [] reqs)
                              \<lparr>j_incLanes := [(''e'', 0), (''e'', 1)]\<rparr>)],
      connections = []\<rparr>"


definition ex_external :: external where
  \<comment> \<open>stand-ins: \<open>py_float\<close> reads integer literals only, the Allowance permits the names of the
      allow list\<close>
  "ex_external =
     \<lparr>py_float = (\<lambda>s. map_sum id real_of_int (py_int s)),
      Allowance = (\<lambda>allow disallow. Inr (set (split_ids allow)))\<rparr>"

definition ex_objs :: "xml list" where
  \<comment> \<open>a walking area whose lane record is incomplete, an edge "e" with one lane, and the
      junction "J" that both lead to\<close>
  "ex_objs =
     [Element ''edge'' [(''id'', '':J_w0''), (''function'', ''walkingarea'')]
        [Element ''lane'' [(''id'', '':J_w0_0'')] []],
      Element ''edge'' [(''id'', ''e''), (''to'', ''J'')]
        [Element ''lane'' [(''id'', ''e_0''), (''index'', ''0''), (''speed'', ''14''),
                           (''allow'', ''passenger''), (''shape'', ''0,0 10,0'')] []],
      Element ''junction'' [(''id'', ''J''), (''type'', ''priority''),
                            (''incLanes'', ''e_0 :J_w0_0''), (''intLanes'', [])] []]"

definition no_walkingarea :: "(string \<times> edge) list \<Rightarrow> bool" where
  "no_walkingarea es = (\<forall>(k, e) \<in> set es. e_function e \<noteq> ''walkingarea'')"


section \<open>Properties of Allowance\<close>

text \<open>
  Claim C6. For all Allowances A and B, the union of A and B is a superset of A and of B, and
  the union permits a class if and only if at least one operand permits it.
\<close>

theorem C6_union_is_superset:
  "is_superset_of (allowance_union A B) A \<and>
   is_superset_of (allowance_union A B) B \<and>
   (allowance_member (allowance_union A B) c \<longleftrightarrow> allowance_member A c \<or> allowance_member B c)"
  by (simp add: is_superset_of_def allowance_union_def allowance_member_def)

section \<open>Properties of the lane classification\<close>

text \<open>
  Claim C8. \<open>lane_type\<close> is the fixed-priority classification: a pedestrian-only lane is a
  crosswalk on an edge of function "crossing" and "pedestrian" otherwise (the crosswalk test
  comes first); else a bicycle-only, ship-only, authority-only or fully excluded lane is
  "bicycle", "ship", "authority" or "none"; else the lane is "no_passenger" when passenger
  traffic is not permitted, and "other" in every remaining case.
\<close>

theorem C8_lane_type_priority:
  "lane_type parentEdge self =
     (if l_allows self = {''pedestrian''} then
        (if (\<exists>e. parentEdge = Some e \<and> e_function e = ''crossing'') then ''crosswalk''
         else ''pedestrian'')
      else if l_allows self = {''bicycle''} then ''bicycle''
      else if l_allows self = {''ship''} then ''ship''
      else if l_allows self = {''authority''} then ''authority''
      else if l_allows self = {} then ''none''
      else if ''passenger'' \<notin> l_allows self then ''no_passenger''
      else ''other'')"
  by (cases parentEdge)
     (simp_all add: lane_type_def allowance_eq_def single_class_def allowance_member_def)


section \<open>Properties of the stop-line rules\<close>

text \<open>
  Claim C1 as stated fails: the code does not look at one position of the response bitstring.
  A lane whose only Request is the row of movement 0 with response "010" requires a stop
  line, although the bit of movement 0 is '0' from either end of the string.
\<close>

theorem C1_own_position_counterexample:
  "requires_stop_line (ex_linked_net ''priority'' {''passenger''} [ex_request ''J'' 0 ''010''])
     (Some (ex_linked_edge {''passenger''} [ex_request ''J'' 0 ''010'']))
     (hd (e_lanes (ex_linked_edge {''passenger''} [ex_request ''J'' 0 ''010''])))
   = Inr True
   \<and> \<not> (\<exists>r \<in> set (l_requests (hd (e_lanes (ex_linked_edge {''passenger''} [ex_request ''J'' 0 ''010''])))).
          spec_own_position_from_right r \<or> spec_own_position_from_left r)"
  by (simp add: requires_stop_line_def ex_linked_net_def ex_linked_edge_def ex_edge_def
      ex_lane_def ex_junction_def ex_request_def deref_junction_def
      spec_own_position_from_right_def spec_own_position_from_left_def)

text \<open>
  Claim C1, amended. For every Lane whose parent Edge has a resolved destination Junction,
  \<open>requires_stop_line\<close> returns false when the Junction's type is "internal" or "zipper",
  whatever the Request list; true when the type is "always_stop"; and otherwise true if and
  only if some Request of the Lane's Request list has a '1' anywhere in its response bitstring.
\<close>

theorem C1_requires_stop_line:
  assumes "parentEdge = Some e" and "deref_junction n (e_to_junction e) = Some j"
  shows "requires_stop_line n parentEdge self =
           Inr (if j_type j = ''internal'' \<or> j_type j = ''zipper'' then False
                else if j_type j = ''always_stop'' then True
                else (\<exists>request \<in> set (l_requests self). CHR ''1'' \<in> set (r_response request)))"
  using assms by (simp add: requires_stop_line_def)

theorem C1_requires_stop_line_witness:
  "requires_stop_line (ex_linked_net ''zipper'' {''passenger''} [ex_request ''J'' 0 ''010''])
     (Some (ex_linked_edge {''passenger''} [ex_request ''J'' 0 ''010'']))
     (hd (e_lanes (ex_linked_edge {''passenger''} [ex_request ''J'' 0 ''010''])))
   = Inr False"
  using C1_requires_stop_line
    [of "Some (ex_linked_edge {''passenger''} [ex_request ''J'' 0 ''010''])"
        "ex_linked_edge {''passenger''} [ex_request ''J'' 0 ''010'']"
        "ex_linked_net ''zipper'' {''passenger''} [ex_request ''J'' 0 ''010'']"
        "(ex_junction ''J'' ''zipper'' [''e_0'', ''e_1''] [] [ex_request ''J'' 0 ''010''])
            \<lparr>j_incLanes := [(''e'', 0), (''e'', 1)]\<rparr>"
        "hd (e_lanes (ex_linked_edge {''passenger''} [ex_request ''J'' 0 ''010'']))"]
  by (simp add: ex_linked_net_def ex_linked_edge_def ex_edge_def ex_junction_def
      deref_junction_def)

lemma accrue_eq:
  "accrue offs (a, locs) = (foldl allowance_union a (map snd offs), locs @ map fst offs)"
  by (induction offs arbitrary: a locs) auto

lemma get_stop_line_locations_eq:
  "get_stop_line_locations parentEdge self =
     (let offs = get_stop_line_locations_offsets parentEdge self in
      map fst offs @
      (if \<not> is_superset_of (foldl allowance_union allowance_none (map snd offs)) (l_allows self)
          \<and> 0 \<notin> fst ` set offs
       then [0] else []))"
  by (simp add: get_stop_line_locations_def accrue_eq Let_def)

text \<open>
  Claim C5. The stop-line locations of a Lane are computed from its own stop-offset
  declarations if there are any, else from its parent Edge's: they are the declared offsets
  in order, followed by 0 when the Allowance accrued across the declarations is not a superset
  of the Lane's and no declaration has offset 0. So the list contains 0 whenever the accrued
  Allowance does not cover every class the Lane permits; with no declaration at all it is
  exactly [0] if the Lane permits any class.
\<close>

theorem C5_stop_line_locations:
  assumes "offs = (if l_stop_offsets self \<noteq> [] then l_stop_offsets self
                   else (case parentEdge of None \<Rightarrow> [] | Some e \<Rightarrow> e_stop_offsets e))"
      and "accrued = foldl allowance_union allowance_none (map snd offs)"
  shows "get_stop_line_locations parentEdge self =
           map fst offs @
           (if \<not> is_superset_of accrued (l_allows self) \<and> 0 \<notin> fst ` set offs then [0] else [])
         \<and> (\<not> is_superset_of accrued (l_allows self)
              \<longrightarrow> 0 \<in> set (get_stop_line_locations parentEdge self))
         \<and> (offs = [] \<and> l_allows self \<noteq> {}
              \<longrightarrow> get_stop_line_locations parentEdge self = [0])"
proof -
  have offs: "get_stop_line_locations_offsets parentEdge self = offs"
    using assms(1) by (simp add: get_stop_line_locations_offsets_def)
  have eq: "get_stop_line_locations parentEdge self =
           map fst offs @
           (if \<not> is_superset_of accrued (l_allows self) \<and> 0 \<notin> fst ` set offs then [0] else [])"
    using offs assms(2) by (simp add: get_stop_line_locations_eq)
  have two: "\<not> is_superset_of accrued (l_allows self)
              \<longrightarrow> 0 \<in> set (get_stop_line_locations parentEdge self)"
    by (simp add: eq)
  have three: "offs = [] \<and> l_allows self \<noteq> {}
              \<longrightarrow> get_stop_line_locations parentEdge self = [0]"
    using assms(2) by (auto simp: eq is_superset_of_def allowance_none_def)
  show ?thesis using eq two three by blast
qed

theorem C5_stop_line_locations_witness:
  "get_stop_line_locations (Some (ex_edge ''e'' ''normal'' None [ex_lane ''e_0'' 0 {''passenger''}]))
     (ex_lane ''e_0'' 0 {''passenger''}) = [0]
   \<and> 0 \<in> set (get_stop_line_locations
                 (Some (ex_edge ''e'' ''normal'' None [ex_lane ''e_0'' 0 {''passenger''}]))
                 (ex_lane ''e_0'' 0 {''passenger''}))"
  using C5_stop_line_locations
    [of "[]" "ex_lane ''e_0'' 0 {''passenger''}"
        "Some (ex_edge ''e'' ''normal'' None [ex_lane ''e_0'' 0 {''passenger''}])" "{}"]
  by (simp add: ex_lane_def ex_edge_def allowance_none_def is_superset_of_def)

section \<open>Properties of the connection splice\<close>

text \<open>
  Claim C4. Deriving the splice polygon of a Connection raises ReferenceError, and so yields
  no geometry, whenever the from-lane, the to-lane or the via-lane reference is unresolved;
  in particular for every Connection that declares a via id and whose via-lane is unresolved.
\<close>

theorem C4_generate_shape_raises:
  "(c_from_lane self = None \<or> c_to_lane self = None \<or> c_via_lane self = None
      \<longrightarrow> generate_shape sh n self = Inl ReferenceError)
   \<and> (c_via_id self \<noteq> None \<and> c_via_lane self = None
      \<longrightarrow> generate_shape sh n self = Inl ReferenceError)"
  by (auto simp: generate_shape_def deref_lane_def split: option.splits)

theorem C4_generate_shape_raises_witness:
  "c_via_id (ex_connection ''e'' 0 ''f'' 0 (Some '':J_0_0'')) \<noteq> None
   \<and> c_via_lane (ex_connection ''e'' 0 ''f'' 0 (Some '':J_0_0'')) = None
   \<and> generate_shape ex_shapely (ex_linked_net ''priority'' {''passenger''} [])
       (ex_connection ''e'' 0 ''f'' 0 (Some '':J_0_0'')) = Inl ReferenceError"
  using C4_generate_shape_raises
    [of "ex_connection ''e'' 0 ''f'' 0 (Some '':J_0_0'')" ex_shapely
        "ex_linked_net ''priority'' {''passenger''} []"]
  by (simp add: ex_connection_def)

section \<open>Properties of the lane markings\<close>

text \<open>
  Claim C9 as stated fails for a ship-only (or rail-only) lane: the test for ship and rail
  lanes comes before the test for a crossing edge, and such a lane gets no marking at all.
\<close>

theorem C9_ship_crossing_counterexample:
  "e_function (ex_edge ''c'' ''crossing'' None [ex_lane ''c_0'' 0 {''ship''}]) = ''crossing''
   \<and> guess_lane_markings ex_shapely ex_config (ex_linked_net ''priority'' {''passenger''} [])
       (Some (ex_edge ''c'' ''crossing'' None [ex_lane ''c_0'' 0 {''ship''}]))
       (ex_lane ''c_0'' 0 {''ship''}) = Inr []"
  by (simp add: guess_lane_markings_def ex_edge_def ex_lane_def allowance_eq_def single_class_def)

text \<open>
  Claim C9, amended. For every Lane whose parent Edge has function "crossing" and whose
  Allowance is neither ship-only nor rail-only, marking derivation returns exactly one
  marking: a dashed white marking of purpose "crossing" along the lane's centerline, as wide
  as the lane; the result is the same under both marking styles.
\<close>

theorem C9_crossing_marking:
  assumes "parentEdge = Some e" and "e_function e = ''crossing''"
      and "l_allows self \<noteq> {''ship''}" and "l_allows self \<noteq> {''rail''}"
  shows "guess_lane_markings sh cfg n parentEdge self =
           Inr [\<lparr>m_alignment = l_alignment self, m_linewidth = l_width self, m_color = ''w'',
                 m_dashes = (0.5, 0.5), m_purpose = ''crossing''\<rparr>]
         \<and> guess_lane_markings sh (cfg\<lparr>LANE_MARKINGS_STYLE := USA_STYLE\<rparr>) n parentEdge self
           = guess_lane_markings sh (cfg\<lparr>LANE_MARKINGS_STYLE := EUR_STYLE\<rparr>) n parentEdge self"
  using assms
  by (simp add: guess_lane_markings_def allowance_eq_def single_class_def mk_LaneMarking_def)

theorem C9_crossing_marking_witness:
  "lane_type (Some (ex_edge ''c'' ''crossing'' None [ex_lane ''c_0'' 0 {''pedestrian''}]))
      (ex_lane ''c_0'' 0 {''pedestrian''}) = ''crosswalk''
   \<and> guess_lane_markings ex_shapely ex_config (ex_linked_net ''priority'' {''passenger''} [])
       (Some (ex_edge ''c'' ''crossing'' None [ex_lane ''c_0'' 0 {''pedestrian''}]))
       (ex_lane ''c_0'' 0 {''pedestrian''})
     = Inr [\<lparr>m_alignment = [[0, 0], [10, 0]], m_linewidth = 3.2, m_color = ''w'',
             m_dashes = (0.5, 0.5), m_purpose = ''crossing''\<rparr>]"
  using C9_crossing_marking
    [of "Some (ex_edge ''c'' ''crossing'' None [ex_lane ''c_0'' 0 {''pedestrian''}])"
        "ex_edge ''c'' ''crossing'' None [ex_lane ''c_0'' 0 {''pedestrian''}]"
        "ex_lane ''c_0'' 0 {''pedestrian''}" ex_shapely ex_config
        "ex_linked_net ''priority'' {''passenger''} []"]
  by (simp add: ex_edge_def ex_lane_def lane_type_def allowance_eq_def single_class_def)

lemma bind_Inr_iff: "bind m f = Inr y \<longleftrightarrow> (\<exists>x. m = Inr x \<and> f x = Inr y)"
  by (cases m) (simp_all add: bind_def)

lemma lane_stripe_purpose: "lane_stripe sh lw e self = Inr m \<Longrightarrow> m_purpose m = ''lane''"
  by (auto simp: lane_stripe_def bind_Inr_iff mk_LaneMarking_def Let_def split: prod.splits)

lemma outer_stripe_stoplines:
  "outer_stripe sh lw self ms0 = Inr ms \<Longrightarrow> stoplines ms = stoplines ms0"
  by (auto simp: outer_stripe_def bind_Inr_iff mk_LaneMarking_def stoplines_def split: if_splits)

lemma style_markings_stoplines:
  "style_markings sh cfg e self = Inr ms \<Longrightarrow> stoplines ms = []"
  by (auto simp: style_markings_def Let_def bind_Inr_iff mk_LaneMarking_def
      dest!: outer_stripe_stoplines lane_stripe_purpose split: if_splits)
     (simp_all add: stoplines_def)

lemma stop_line_marking_props:
  "stop_line_marking sh self loc = Inr m \<Longrightarrow>
     m_purpose m = ''stopline'' \<and> m_linewidth m = 0.5 \<and> m_color m = ''w'' \<and> m_dashes m = (100, 0)"
  by (auto simp: stop_line_marking_def Let_def bind_Inr_iff mk_LaneMarking_def slw_def)

lemma stop_line_loop_stoplines:
  "has_substring sh \<Longrightarrow> stop_line_loop sh self locs ms0 = Inr ms \<Longrightarrow>
     map (\<lambda>m. (m_linewidth m, m_color m, m_dashes m)) (stoplines ms) =
     map (\<lambda>m. (m_linewidth m, m_color m, m_dashes m)) (stoplines ms0)
       @ map (\<lambda>loc. (0.5, ''w'', (100, 0))) locs"
proof (induction locs arbitrary: ms0)
  case Nil
  then show ?case by simp
next
  case (Cons loc rest)
  from Cons.prems obtain m where m: "stop_line_marking sh self loc = Inr m"
    and rest: "stop_line_loop sh self rest (ms0 @ [m]) = Inr ms"
    by (auto simp: bind_Inr_iff)
  from stop_line_marking_props[OF m] Cons.IH[OF Cons.prems(1) rest]
  show ?case by (simp add: stoplines_def)
qed

lemma stop_line_loop_nonempty:
  "stop_line_loop sh self locs ms0 = Inr ms \<Longrightarrow> stoplines ms0 = [] \<Longrightarrow> stoplines ms \<noteq> [] \<Longrightarrow>
     has_substring sh"
  by (cases locs) (auto split: if_splits)

text \<open>
  Claim C7 as stated fails: the code excludes the lanes whose Allowance equals "pedestrian" or
  "ship", not the lanes that permit those classes. A lane that permits passenger cars and
  pedestrians and feeds an always-stop junction gets a stop line.
\<close>

theorem C7_pedestrian_permitted_counterexample:
  "allowance_member
     (l_allows (hd (e_lanes (ex_linked_edge {''passenger'', ''pedestrian''} [])))) ''pedestrian''
   \<and> map_sum id (map m_purpose)
       (guess_lane_markings ex_shapely ex_config
          (ex_linked_net ''always_stop'' {''passenger'', ''pedestrian''} [])
          (Some (ex_linked_edge {''passenger'', ''pedestrian''} []))
          (hd (e_lanes (ex_linked_edge {''passenger'', ''pedestrian''} []))))
     = Inr [''lane'', ''stopline'']"
  by (simp add: guess_lane_markings_def ex_linked_net_def ex_linked_edge_def ex_edge_def ex_lane_def
     ex_junction_def ex_shapely_def ex_config_def allowance_eq_def single_class_def allowance_member_def
     style_markings_def lane_stripe_def outer_stripe_def inverse_lane_index_def lane_count_def get_lane_def
     bind_def USA_STYLE_def EUR_STYLE_def mk_LaneMarking_def requires_stop_line_def deref_junction_def
     get_stop_line_locations_def get_stop_line_locations_offsets_def allowance_none_def is_superset_of_def
     stop_line_marking_def slw_def py_first_def py_last_def Let_def)

lemma guess_lane_markings_cases:
  assumes "guess_lane_markings sh cfg n (Some e) self = Inr ms"
  shows "(e_function e = ''internal'' \<or> allowance_eq (l_allows self) ''ship''
            \<or> allowance_eq (l_allows self) ''rail'') \<and> ms = []
         \<or> e_function e = ''crossing'' \<and> stoplines ms = []
         \<or> e_function e \<noteq> ''internal'' \<and> e_function e \<noteq> ''crossing''
            \<and> \<not> allowance_eq (l_allows self) ''ship'' \<and> \<not> allowance_eq (l_allows self) ''rail''
            \<and> (\<exists>markings. style_markings sh cfg e self = Inr markings
                 \<and> (if PLOT_STOP_LINES cfg \<and> \<not> allowance_eq (l_allows self) ''pedestrian''
                     then (\<exists>required. requires_stop_line n (Some e) self = Inr required
                             \<and> (if required
                                  then stop_line_loop sh self
                                         (get_stop_line_locations (Some e) self) markings = Inr ms
                                  else ms = markings))
                     else ms = markings))"
proof -
  let ?early = "e_function e = ''internal'' \<or> allowance_eq (l_allows self) ''ship''
            \<or> allowance_eq (l_allows self) ''rail''"
  show ?thesis
  proof (cases ?early)
    case True
    with assms have "ms = []" by (simp add: guess_lane_markings_def)
    with True show ?thesis by simp
  next
    case early: False
    show ?thesis
    proof (cases "e_function e = ''crossing''")
      case True
      with assms early
      have "ms = [mk_LaneMarking (l_alignment self) (l_width self) ''w'' (0.5, 0.5) ''crossing'']"
        by (simp add: guess_lane_markings_def)
      then have "stoplines ms = []" by (simp add: stoplines_def mk_LaneMarking_def)
      with True show ?thesis by simp
    next
      case False
      with assms early obtain markings where
        style: "style_markings sh cfg e self = Inr markings" and
        rest: "(if PLOT_STOP_LINES cfg \<and> \<not> allowance_eq (l_allows self) ''pedestrian''
                then bind (requires_stop_line n (Some e) self) (\<lambda>required.
                       if required
                       then stop_line_loop sh self (get_stop_line_locations (Some e) self) markings
                       else Inr markings)
                else Inr markings) = Inr ms"
        by (simp add: guess_lane_markings_def bind_Inr_iff) blast
      have "(if PLOT_STOP_LINES cfg \<and> \<not> allowance_eq (l_allows self) ''pedestrian''
                     then (\<exists>required. requires_stop_line n (Some e) self = Inr required
                             \<and> (if required
                                  then stop_line_loop sh self
                                         (get_stop_line_locations (Some e) self) markings = Inr ms
                                  else ms = markings))
                     else ms = markings)"
      proof (cases "PLOT_STOP_LINES cfg \<and> \<not> allowance_eq (l_allows self) ''pedestrian''")
        case True
        with rest obtain required where
          "requires_stop_line n (Some e) self = Inr required"
          "(if required
            then stop_line_loop sh self (get_stop_line_locations (Some e) self) markings
            else Inr markings) = Inr ms"
          by (simp add: bind_Inr_iff) blast
        then have "requires_stop_line n (Some e) self = Inr required
                             \<and> (if required
                                  then stop_line_loop sh self
                                         (get_stop_line_locations (Some e) self) markings = Inr ms
                                  else ms = markings)"
          by (cases required) auto
        with True show ?thesis by simp
      next
        case False
        with rest have "ms = markings" by simp
        with False show ?thesis by auto
      qed
      with style False early show ?thesis by blast
    qed
  qed
qed

text \<open>
  Claim C7, amended. Whenever marking derivation returns, it has appended "stopline" markings
  only if stop lines are enabled globally, \<open>requires_stop_line\<close> is true, and the lane is
  neither pedestrian-only nor ship-only. Conversely, when these three hold, the lane is not
  rail-only, its edge's function is neither "internal" nor "crossing", and Shapely provides
  \<open>substring\<close>, the result has exactly one solid white marking of width 0.5 per stop-line
  location.
\<close>

theorem C7_stop_line_markings:
  assumes "guess_lane_markings sh cfg n parentEdge self = Inr ms"
  shows "(stoplines ms \<noteq> [] \<longrightarrow>
            PLOT_STOP_LINES cfg \<and> requires_stop_line n parentEdge self = Inr True
            \<and> l_allows self \<noteq> {''pedestrian''} \<and> l_allows self \<noteq> {''ship''})
         \<and> (PLOT_STOP_LINES cfg \<and> requires_stop_line n parentEdge self = Inr True
              \<and> l_allows self \<noteq> {''pedestrian''} \<and> l_allows self \<noteq> {''ship''}
              \<and> l_allows self \<noteq> {''rail''}
              \<and> (\<exists>e. parentEdge = Some e \<and> e_function e \<noteq> ''internal''
                       \<and> e_function e \<noteq> ''crossing'')
              \<and> has_substring sh \<longrightarrow>
            map (\<lambda>m. (m_linewidth m, m_color m, m_dashes m)) (stoplines ms) =
            map (\<lambda>loc. (0.5, ''w'', (100, 0))) (get_stop_line_locations parentEdge self))"
proof (cases parentEdge)
  case None
  with assms show ?thesis by (simp add: guess_lane_markings_def)
next
  case (Some e)
  define ped where "ped = allowance_eq (l_allows self) ''pedestrian''"
  define ship where "ship = allowance_eq (l_allows self) ''ship''"
  define rail where "rail = allowance_eq (l_allows self) ''rail''"
  define S where "S = stoplines ms"
  define R where "R = requires_stop_line n (Some e) self"
  define L where "L = get_stop_line_locations (Some e) self"
  define P where "P = map (\<lambda>m. (m_linewidth m, m_color m, m_dashes m)) S"
  define Q where "Q = map (\<lambda>loc::real. (0.5::real, ''w'', (100::real, 0::real))) L"
  note cs = guess_lane_markings_cases[OF assms[unfolded Some],
      folded ped_def ship_def rail_def S_def R_def L_def]
  have only_if: "S \<noteq> [] \<Longrightarrow> PLOT_STOP_LINES cfg \<and> R = Inr True \<and> \<not> ped \<and> \<not> ship"
  proof -
    assume ne: "S \<noteq> []"
    from cs ne obtain markings where
      "\<not> ship" and style: "style_markings sh cfg e self = Inr markings" and
      rest: "(if PLOT_STOP_LINES cfg \<and> \<not> ped
              then (\<exists>required. R = Inr required
                      \<and> (if required then stop_line_loop sh self L markings = Inr ms
                          else ms = markings))
              else ms = markings)"
      unfolding S_def by (auto simp: stoplines_def)
    have none: "stoplines markings = []" using style by (rule style_markings_stoplines)
    have on: "PLOT_STOP_LINES cfg \<and> \<not> ped"
    proof (rule ccontr)
      assume "\<not> (PLOT_STOP_LINES cfg \<and> \<not> ped)"
      with rest have "ms = markings" by simp
      with none ne show False by (simp add: S_def)
    qed
    with rest obtain required where r: "R = Inr required"
      and l: "(if required then stop_line_loop sh self L markings = Inr ms else ms = markings)"
      by auto
    have "required"
    proof (rule ccontr)
      assume "\<not> required"
      with l have "ms = markings" by simp
      with none ne show False by (simp add: S_def)
    qed
    with r on \<open>\<not> ship\<close> show ?thesis by simp
  qed
  have "if": "PLOT_STOP_LINES cfg \<Longrightarrow> R = Inr True \<Longrightarrow> \<not> ped \<Longrightarrow> \<not> ship \<Longrightarrow> \<not> rail \<Longrightarrow>
      e_function e \<noteq> ''internal'' \<Longrightarrow> e_function e \<noteq> ''crossing'' \<Longrightarrow> has_substring sh \<Longrightarrow> P = Q"
  proof -
    assume a: "PLOT_STOP_LINES cfg" "R = Inr True" "\<not> ped" "\<not> ship" "\<not> rail"
      "e_function e \<noteq> ''internal''" "e_function e \<noteq> ''crossing''" "has_substring sh"
    from cs a obtain markings where
      style: "style_markings sh cfg e self = Inr markings" and
      l: "stop_line_loop sh self L markings = Inr ms"
      by auto
    have none: "stoplines markings = []" using style by (rule style_markings_stoplines)
    from stop_line_loop_stoplines[OF a(8) l] none show "P = Q"
      by (simp add: P_def Q_def S_def)
  qed
  have eqs: "ped = (l_allows self = {''pedestrian''})" "ship = (l_allows self = {''ship''})"
    "rail = (l_allows self = {''rail''})"
    by (simp_all add: ped_def ship_def rail_def allowance_eq_def single_class_def)
  have "(S \<noteq> [] \<longrightarrow> PLOT_STOP_LINES cfg \<and> R = Inr True \<and> \<not> ped \<and> \<not> ship)
      \<and> (PLOT_STOP_LINES cfg \<and> R = Inr True \<and> \<not> ped \<and> \<not> ship \<and> \<not> rail
          \<and> (e_function e \<noteq> ''internal'' \<and> e_function e \<noteq> ''crossing'')
          \<and> has_substring sh \<longrightarrow> P = Q)"
    using only_if "if" by blast
  then show ?thesis
    unfolding Some eqs S_def R_def L_def P_def Q_def by simp
qed

theorem C7_stop_line_markings_witness:
  "guess_lane_markings ex_shapely ex_config (ex_linked_net ''always_stop'' {''passenger''} [])
     (Some (ex_linked_edge {''passenger''} [])) (hd (e_lanes (ex_linked_edge {''passenger''} [])))
   = Inr [\<lparr>m_alignment = [[0, 0], [10, 0]], m_linewidth = 1 / 10, m_color = ''w'',
             m_dashes = (3, 9), m_purpose = ''lane''\<rparr>,
          \<lparr>m_alignment = [[0, 0], [10, 0]], m_linewidth = 1 / 10, m_color = ''w'',
             m_dashes = (100, 0), m_purpose = ''outer''\<rparr>,
          \<lparr>m_alignment = [[10, 0], [0, 0]], m_linewidth = 1 / 2, m_color = ''w'',
             m_dashes = (100, 0), m_purpose = ''stopline''\<rparr>]
   \<and> PLOT_STOP_LINES ex_config
   \<and> requires_stop_line (ex_linked_net ''always_stop'' {''passenger''} [])
       (Some (ex_linked_edge {''passenger''} [])) (hd (e_lanes (ex_linked_edge {''passenger''} [])))
     = Inr True
   \<and> get_stop_line_locations (Some (ex_linked_edge {''passenger''} []))
       (hd (e_lanes (ex_linked_edge {''passenger''} []))) = [0]
   \<and> map (\<lambda>m. (m_linewidth m, m_color m, m_dashes m))
       (stoplines
          [\<lparr>m_alignment = [[0, 0], [10, 0]], m_linewidth = 1 / 10, m_color = ''w'',
             m_dashes = (3, 9), m_purpose = ''lane''\<rparr>,
           \<lparr>m_alignment = [[0, 0], [10, 0]], m_linewidth = 1 / 10, m_color = ''w'',
             m_dashes = (100, 0), m_purpose = ''outer''\<rparr>,
           \<lparr>m_alignment = [[10, 0], [0, 0]], m_linewidth = 1 / 2, m_color = ''w'',
             m_dashes = (100, 0), m_purpose = ''stopline''\<rparr>])
     = [(0.5, ''w'', (100, 0))]"
proof -
  have run: "guess_lane_markings ex_shapely ex_config
       (ex_linked_net ''always_stop'' {''passenger''} [])
       (Some (ex_linked_edge {''passenger''} [])) (hd (e_lanes (ex_linked_edge {''passenger''} [])))
   = Inr [\<lparr>m_alignment = [[0, 0], [10, 0]], m_linewidth = 1 / 10, m_color = ''w'',
             m_dashes = (3, 9), m_purpose = ''lane''\<rparr>,
          \<lparr>m_alignment = [[0, 0], [10, 0]], m_linewidth = 1 / 10, m_color = ''w'',
             m_dashes = (100, 0), m_purpose = ''outer''\<rparr>,
          \<lparr>m_alignment = [[10, 0], [0, 0]], m_linewidth = 1 / 2, m_color = ''w'',
             m_dashes = (100, 0), m_purpose = ''stopline''\<rparr>]"
    by (simp add: guess_lane_markings_def ex_linked_net_def ex_linked_edge_def ex_edge_def
        ex_lane_def ex_junction_def ex_shapely_def ex_config_def allowance_eq_def single_class_def
        allowance_member_def style_markings_def lane_stripe_def outer_stripe_def
        inverse_lane_index_def lane_count_def get_lane_def bind_def USA_STYLE_def EUR_STYLE_def
        mk_LaneMarking_def requires_stop_line_def deref_junction_def get_stop_line_locations_def
        get_stop_line_locations_offsets_def allowance_none_def is_superset_of_def
        stop_line_marking_def slw_def py_first_def py_last_def Let_def)
  have req: "requires_stop_line (ex_linked_net ''always_stop'' {''passenger''} [])
       (Some (ex_linked_edge {''passenger''} [])) (hd (e_lanes (ex_linked_edge {''passenger''} [])))
     = Inr True"
    by (simp add: requires_stop_line_def ex_linked_net_def ex_linked_edge_def ex_edge_def
        ex_junction_def deref_junction_def)
  have locs: "get_stop_line_locations (Some (ex_linked_edge {''passenger''} []))
       (hd (e_lanes (ex_linked_edge {''passenger''} []))) = [0]"
    by (simp add: get_stop_line_locations_def get_stop_line_locations_offsets_def
        ex_linked_edge_def ex_edge_def ex_lane_def allowance_none_def is_superset_of_def)
  have pre: "PLOT_STOP_LINES ex_config \<and> has_substring ex_shapely
        \<and> l_allows (hd (e_lanes (ex_linked_edge {''passenger''} []))) \<noteq> {''pedestrian''}
        \<and> l_allows (hd (e_lanes (ex_linked_edge {''passenger''} []))) \<noteq> {''ship''}
        \<and> l_allows (hd (e_lanes (ex_linked_edge {''passenger''} []))) \<noteq> {''rail''}
        \<and> e_function (ex_linked_edge {''passenger''} []) \<noteq> ''internal''
        \<and> e_function (ex_linked_edge {''passenger''} []) \<noteq> ''crossing''"
    by (simp add: ex_config_def ex_shapely_def ex_linked_edge_def ex_edge_def ex_lane_def)
  have "PLOT_STOP_LINES ex_config
        \<and> requires_stop_line (ex_linked_net ''always_stop'' {''passenger''} [])
            (Some (ex_linked_edge {''passenger''} []))
            (hd (e_lanes (ex_linked_edge {''passenger''} []))) = Inr True
        \<and> l_allows (hd (e_lanes (ex_linked_edge {''passenger''} []))) \<noteq> {''pedestrian''}
        \<and> l_allows (hd (e_lanes (ex_linked_edge {''passenger''} []))) \<noteq> {''ship''}
        \<and> l_allows (hd (e_lanes (ex_linked_edge {''passenger''} []))) \<noteq> {''rail''}
        \<and> (\<exists>e. Some (ex_linked_edge {''passenger''} []) = Some e
                 \<and> e_function e \<noteq> ''internal'' \<and> e_function e \<noteq> ''crossing'')
        \<and> has_substring ex_shapely"
    using req pre by blast
  from C7_stop_line_markings[OF run, THEN conjunct2, THEN mp, OF this]
  have "map (\<lambda>m. (m_linewidth m, m_color m, m_dashes m))
       (stoplines
          [\<lparr>m_alignment = [[0, 0], [10, 0]], m_linewidth = 1 / 10, m_color = ''w'',
             m_dashes = (3, 9), m_purpose = ''lane''\<rparr>,
           \<lparr>m_alignment = [[0, 0], [10, 0]], m_linewidth = 1 / 10, m_color = ''w'',
             m_dashes = (100, 0), m_purpose = ''outer''\<rparr>,
           \<lparr>m_alignment = [[10, 0], [0, 0]], m_linewidth = 1 / 2, m_color = ''w'',
             m_dashes = (100, 0), m_purpose = ''stopline''\<rparr>])
     = [(0.5, ''w'', (100, 0))]"
    by (simp only: locs list.map)
  with run req locs pre show ?thesis by blast
qed

section \<open>Properties of the linking pass\<close>



text \<open>The linking pass writes none of the fields that the records determine.\<close>

lemma static_link_edges: "static (link_edges n) = static n"
  by (simp add: static_def link_edges_def link_edge_def static_edge_def case_prod_unfold comp_def)

lemma map_list_update_same:
  "g (f (xs ! i)) = g (xs ! i) \<Longrightarrow> map g (xs[i := f (xs ! i)]) = map g xs"
proof (cases "i < length xs")
  case True
  assume "g (f (xs ! i)) = g (xs ! i)"
  with True show ?thesis by (simp add: map_update list_update_same_conv)
next
  case False
  then show ?thesis by (simp add: list_update_beyond)
qed

lemma static_edge_update_lane:
  "static_lane (f (e_lanes e ! i)) = static_lane (e_lanes e ! i) \<Longrightarrow>
     static_edge (e\<lparr>e_lanes := (e_lanes e)[i := f (e_lanes e ! i)]\<rparr>) = static_edge e"
  by (simp add: static_edge_def map_list_update_same)

lemma map_map_entry_same:
  "(\<And>v. (k, v) \<in> set xs \<Longrightarrow> g (f v) = g v) \<Longrightarrow>
     map (\<lambda>(k, v). (k, g v)) (AList.map_entry k f xs) = map (\<lambda>(k, v). (k, g v)) xs"
  by (induction xs) auto

lemma static_update_lane:
  "(\<And>l. static_lane (f l) = static_lane l) \<Longrightarrow> static (update_lane r f n) = static n"
  by (simp add: static_def update_lane_def map_map_entry_same static_edge_update_lane)

lemma static_link_lane: "link_lane j n r = Inr n' \<Longrightarrow> static n' = static n"
  by (auto simp: link_lane_def bind_Inr_iff static_update_lane static_lane_def
      split: option.splits)

lemma static_link_lanes: "link_lanes j rs n = Inr n' \<Longrightarrow> static n' = static n"
  by (induction rs arbitrary: n) (auto simp: bind_Inr_iff dest: static_link_lane)

lemma static_junction_update:
  "junctions n ! i = (k, j) \<Longrightarrow>
     static (n\<lparr>junctions := (junctions n)[i := (k, j\<lparr>j_incLanes := a, j_intLanes := b\<rparr>)]\<rparr>)
       = static n"
proof -
  assume a: "junctions n ! i = (k, j)"
  have "map (\<lambda>(k, j). (k, static_junction j))
          ((junctions n)[i := (\<lambda>(k, j). (k, j\<lparr>j_incLanes := a, j_intLanes := b\<rparr>)) (junctions n ! i)])
        = map (\<lambda>(k, j). (k, static_junction j)) (junctions n)"
    by (rule map_list_update_same) (simp add: a static_junction_def)
  then show ?thesis by (simp add: static_def a)
qed

lemma static_link_junction: "link_junction i n = Inr n' \<Longrightarrow> static n' = static n"
  by (auto simp: link_junction_def bind_Inr_iff static_junction_update
      split: prod.splits if_splits dest!: static_link_lanes)

lemma static_link_junctions: "link_junctions is n = Inr n' \<Longrightarrow> static n' = static n"
  by (induction "is" arbitrary: n) (auto simp: bind_Inr_iff dest: static_link_junction)

lemma static_link_connection:
  "link_connection n c = Inr c' \<Longrightarrow> static_connection c' = static_connection c"
  by (auto simp: link_connection_def bind_Inr_iff static_connection_def)

lemma static_link_connections:
  "link_connections n cs = Inr cs' \<Longrightarrow> map static_connection cs' = map static_connection cs"
  by (induction cs arbitrary: cs') (auto simp: bind_Inr_iff dest: static_link_connection)

lemma static_link_objects: "link_objects n = Inr n' \<Longrightarrow> static n' = static n"
proof -
  assume "link_objects n = Inr n'"
  then obtain m cs where m: "link_junctions [0..<length (junctions n)] (link_edges n) = Inr m"
    and cs: "link_connections m (connections m) = Inr cs" and n': "n' = m\<lparr>connections := cs\<rparr>"
    by (auto simp: link_objects_def bind_Inr_iff)
  have "static m = static n" using static_link_junctions[OF m] static_link_edges by simp
  moreover have "static n' = static m"
    using static_link_connections[OF cs] by (simp add: static_def n')
  ultimately show ?thesis by simp
qed

section \<open>Properties of the construction\<close>

lemma bind_Inr: "bind (Inr x) f = f x"
  by (simp add: bind_def)

lemma load_objects_skip_walkingarea:
  "load_objects ext sh (filter (\<lambda>obj. \<not> is_walkingarea obj) objs) n = load_objects ext sh objs n"
proof (induction objs arbitrary: n)
  case Nil
  show ?case by simp
next
  case (Cons obj objs)
  have IH: "load_objects ext sh (filter (\<lambda>obj. \<not> is_walkingarea obj) objs)
      = load_objects ext sh objs"
    by (rule ext) (rule Cons.IH)
  show ?case
  proof (cases "is_walkingarea obj")
    case True
    then have "load_object ext sh obj n = Inr n"
      by (simp add: is_walkingarea_def load_object_def)
    with True show ?thesis by (simp add: bind_Inr Cons.IH)
  next
    case False
    then show ?thesis by (simp add: IH)
  qed
qed

lemma edge_children_function:
  "edge_children ext sh cs e = Inr e' \<Longrightarrow> e_function e' = e_function e"
  by (induction cs arbitrary: e) (auto simp: bind_Inr_iff split: if_splits)

lemma Edge_init_function:
  "Edge_init a = Inr e \<Longrightarrow> map_of a ''function'' \<noteq> Some ''walkingarea'' \<Longrightarrow>
     e_function e \<noteq> ''walkingarea''"
  by (auto simp: Edge_init_def bind_Inr_iff get_or_def split: option.splits)

lemma set_update_subset: "set (AList.update k v xs) \<subseteq> insert (k, v) (set xs)"
  by (induction xs) auto

lemma no_walkingarea_update:
  "no_walkingarea es \<Longrightarrow> e_function e \<noteq> ''walkingarea'' \<Longrightarrow>
     no_walkingarea (AList.update k e es)"
  using set_update_subset[of k e es] by (auto simp: no_walkingarea_def)

lemma load_object_no_walkingarea:
  "load_object ext sh obj n = Inr n' \<Longrightarrow> no_walkingarea (edges n) \<Longrightarrow> no_walkingarea (edges n')"
  by (auto simp: load_object_def bind_Inr_iff split: if_splits
      dest!: edge_children_function Edge_init_function intro!: no_walkingarea_update)

lemma load_objects_no_walkingarea:
  "load_objects ext sh objs n = Inr n' \<Longrightarrow> no_walkingarea (edges n) \<Longrightarrow> no_walkingarea (edges n')"
  by (induction objs arbitrary: n) (auto simp: bind_Inr_iff dest: load_object_no_walkingarea)

lemma static_edge_functions:
  assumes "static n' = static n"
  shows "map (\<lambda>(k, e). e_function e) (edges n') = map (\<lambda>(k, e). e_function e) (edges n)"
proof -
  from assms have "map (\<lambda>(k, e). (k, static_edge e)) (edges n')
      = map (\<lambda>(k, e). (k, static_edge e)) (edges n)"
    by (simp add: static_def)
  then have "map (\<lambda>(k, e). e_function e) (map (\<lambda>(k, e). (k, static_edge e)) (edges n'))
      = map (\<lambda>(k, e). e_function e) (map (\<lambda>(k, e). (k, static_edge e)) (edges n))"
    by simp
  then show ?thesis by (simp add: case_prod_unfold comp_def static_edge_def)
qed

lemma no_walkingarea_functions:
  "no_walkingarea es \<longleftrightarrow> ''walkingarea'' \<notin> set (map (\<lambda>(k, e). e_function e) es)"
  by (force simp: no_walkingarea_def)

text \<open>
  Claim C10. The edge collection of a constructed Net holds no Edge of function "walkingarea":
  the constructor skips such edge records with everything below them, so the Net is the one
  built from the description without them.
\<close>

theorem C10_no_walkingarea_edges:
  "(Net_init ext sh objs = Inr n \<longrightarrow> (\<forall>(k, e) \<in> set (edges n). e_function e \<noteq> ''walkingarea''))
   \<and> Net_init ext sh (filter (\<lambda>obj. \<not> is_walkingarea obj) objs) = Net_init ext sh objs"
proof
  show "Net_init ext sh objs = Inr n \<longrightarrow> (\<forall>(k, e) \<in> set (edges n). e_function e \<noteq> ''walkingarea'')"
  proof
    assume "Net_init ext sh objs = Inr n"
    then obtain m where
      m: "load_objects ext sh objs \<lparr>edges = [], junctions = [], connections = []\<rparr> = Inr m"
      and l: "link_objects m = Inr n"
      by (auto simp: Net_init_def bind_Inr_iff)
    have "no_walkingarea (edges m)"
      using load_objects_no_walkingarea[OF m] by (simp add: no_walkingarea_def)
    then have "no_walkingarea (edges n)"
      using static_edge_functions[OF static_link_objects[OF l]]
      by (simp add: no_walkingarea_functions)
    then show "\<forall>(k, e) \<in> set (edges n). e_function e \<noteq> ''walkingarea''"
      by (simp add: no_walkingarea_def)
  qed
  show "Net_init ext sh (filter (\<lambda>obj. \<not> is_walkingarea obj) objs) = Net_init ext sh objs"
    by (simp add: Net_init_def load_objects_skip_walkingarea)
qed

theorem C10_no_walkingarea_edges_witness:
  "is_walkingarea (hd ex_objs)
   \<and> map_sum id (\<lambda>n. map (\<lambda>(k, e). (k, e_function e)) (edges n))
       (Net_init ex_external ex_shapely ex_objs) = Inr [(''e'', ''normal'')]
   \<and> (case Net_init ex_external ex_shapely ex_objs of
         Inl err \<Rightarrow> False
       | Inr n \<Rightarrow> list_all (\<lambda>(k, e). e_function e \<noteq> ''walkingarea'') (edges n))
   \<and> Net_init ex_external ex_shapely (tl ex_objs) = Net_init ex_external ex_shapely ex_objs"
proof -
  have w: "is_walkingarea (hd ex_objs)"
    by (simp add: ex_objs_def is_walkingarea_def)
  have ev: "map_sum id (\<lambda>n. map (\<lambda>(k, e). (k, e_function e)) (edges n))
       (Net_init ex_external ex_shapely ex_objs) = Inr [(''e'', ''normal'')]"
    by code_simp
  then obtain n where n: "Net_init ex_external ex_shapely ex_objs = Inr n"
    by (cases "Net_init ex_external ex_shapely ex_objs") auto
  have f: "filter (\<lambda>obj. \<not> is_walkingarea obj) ex_objs = tl ex_objs"
    by (simp add: ex_objs_def is_walkingarea_def)
  from C10_no_walkingarea_edges[of ex_external ex_shapely ex_objs n] n
  have "\<forall>(k, e) \<in> set (edges n). e_function e \<noteq> ''walkingarea''"
    and "Net_init ex_external ex_shapely (tl ex_objs) = Net_init ex_external ex_shapely ex_objs"
    unfolding f by (blast, simp)
  with w ev n show ?thesis by (simp add: list_all_iff)
qed

section \<open>Running the linking pass twice\<close>





































































section \<open>Ids that do not resolve in the linking pass\<close>



























end
